theory Spec2Isabelle
  imports Complex_Main "HOL-Library.Word"
begin

section \<open>Data model of the balances slice\<close>

text \<open>
  The slice \<^verbatim>\<open>balancesSlice\<close> (created with \<^verbatim>\<open>createSlice\<close>) keeps, per cluster and per
  wallet address, the last snapshot of token balances, and the token prices per currency.
  A JavaScript object used as a dictionary is a map from its string keys; reading a key
  that was never written and reading a key that holds \<^verbatim>\<open>undefined\<close> both give
  \<^verbatim>\<open>undefined\<close>, which is \<open>None\<close> here. A JavaScript \<^verbatim>\<open>number\<close> that is only stored and
  copied is a \<open>real\<close>.
\<close>

type_synonym number = real

text \<open>\<^verbatim>\<open>Cluster\<close> of \<^verbatim>\<open>@solana/web3.js\<close>: \<^verbatim>\<open>'devnet' | 'testnet' | 'mainnet-beta'\<close>.\<close>

datatype Cluster = Mainnet_beta | Devnet | Testnet

text \<open>
  \<^verbatim>\<open>TokenAccount\<close> is declared in \<^verbatim>\<open>types/balance\<close>; its fields are those the thunk writes
  and \<^verbatim>\<open>updateAtaBalance\<close> reads.
\<close>

record TokenAccount =
  tokenAccount :: string
  mint :: string
  balance :: number

text \<open>The shape \<^verbatim>\<open>{ tokenAccount: string; balance: number }\<close> of \<^verbatim>\<open>sol\<close> and \<^verbatim>\<open>dcEscrow\<close>.\<close>

record NativeBalance =
  nb_tokenAccount :: string
  nb_balance :: number

record Tokens =
  atas :: "TokenAccount list"
  sol :: NativeBalance
  dcEscrow :: NativeBalance

text \<open>
  \<^verbatim>\<open>Prices\<close> is declared in \<^verbatim>\<open>types/balance\<close>; the four token keys are those the reducer
  creates, reads and writes.
\<close>

record Prices =
  helium :: "string \<rightharpoonup> number"
  solana :: "string \<rightharpoonup> number"
  helium_iot :: "string \<rightharpoonup> number"
  helium_mobile :: "string \<rightharpoonup> number"

text \<open>
  \<^verbatim>\<open>BalancesState\<close>. The two outer records are \<^verbatim>\<open>Record<Cluster, ...>\<close>, total over the
  three clusters; \<open>'h\<close> is the type \<^verbatim>\<open>AccountBalance\<close> of a history point, which the slice
  only stores.
\<close>

record 'h BalancesState =
  balancesLoading :: "bool option"
  tokenPrices :: "Prices option"
  balanceHistory :: "Cluster \<Rightarrow> string \<rightharpoonup> (string \<rightharpoonup> 'h list)"
  balances :: "Cluster \<Rightarrow> string \<rightharpoonup> Tokens"

definition initialState :: "'h BalancesState" where
  "initialState =
     \<lparr> balancesLoading = None, tokenPrices = None,
       balanceHistory = (\<lambda>_. Map.empty), balances = (\<lambda>_. Map.empty) \<rparr>"

text \<open>
  \<^verbatim>\<open>CSAccount\<close> is declared in \<^verbatim>\<open>storage/cloudStorage\<close>; the code reads its \<^verbatim>\<open>address\<close>
  and its optional \<^verbatim>\<open>solanaAddress\<close>.
\<close>

record CSAccount =
  address :: string
  solanaAddress :: "string option"

text \<open>JavaScript truthiness of an optional string: present and not empty.\<close>

definition truthy :: "string option \<Rightarrow> bool" where
  "truthy v = (case v of None \<Rightarrow> False | Some s \<Rightarrow> s \<noteq> [])"

text \<open>
  The arguments the thunk was called with, as the reducer finds them in
  \<^verbatim>\<open>action.meta.arg\<close>. The reducer tests the cluster for absence, so it is optional here.
\<close>

record SyncArgs =
  arg_cluster :: "Cluster option"
  arg_acct :: CSAccount

datatype BalanceType = DcEscrow | Sol

section \<open>Reducers\<close>

text \<open>Assignment to \<^verbatim>\<open>state.balances[cluster][solanaAddress]\<close>.\<close>

definition set_tokens :: "'h BalancesState \<Rightarrow> Cluster \<Rightarrow> string \<Rightarrow> Tokens \<Rightarrow> 'h BalancesState" where
  "set_tokens s c a tk = s\<lparr> balances := (balances s)(c := (balances s c)(a \<mapsto> tk)) \<rparr>"

text \<open>
  \<^verbatim>\<open>updateBalance\<close>: the payload fields are the arguments. Without a previous snapshot the
  reducer returns at once.
\<close>

definition updateBalance ::
  "'h BalancesState \<Rightarrow> Cluster \<Rightarrow> string \<Rightarrow> number \<Rightarrow> BalanceType \<Rightarrow> string \<Rightarrow> 'h BalancesState" where
  "updateBalance s cluster addr bal ty tokAcc =
     (let next = \<lparr> nb_tokenAccount = tokAcc, nb_balance = bal \<rparr> in
      case balances s cluster addr of
        None \<Rightarrow> s
      | Some prevTokens \<Rightarrow>
          (case ty of
             DcEscrow \<Rightarrow> set_tokens s cluster addr (prevTokens\<lparr> dcEscrow := next \<rparr>)
           | Sol \<Rightarrow> set_tokens s cluster addr (prevTokens\<lparr> sol := next \<rparr>)))"

text \<open>\<^verbatim>\<open>Array.prototype.findIndex\<close>: the first index whose element satisfies the predicate,
  \<open>None\<close> for \<^verbatim>\<open>-1\<close>.\<close>

fun findIndex :: "('a \<Rightarrow> bool) \<Rightarrow> 'a list \<Rightarrow> nat option" where
  "findIndex p [] = None"
| "findIndex p (x # xs) =
     (if p x then Some 0 else (case findIndex p xs of None \<Rightarrow> None | Some i \<Rightarrow> Some (Suc i)))"

text \<open>
  \<^verbatim>\<open>updateAtaBalance\<close>: \<^verbatim>\<open>prevAtas\<close> is the stored list, or a fresh empty list when the
  cluster, the address or the list is missing; the found entry has its balance overwritten.
\<close>

definition updateAtaBalance ::
  "'h BalancesState \<Rightarrow> Cluster \<Rightarrow> string \<Rightarrow> number \<Rightarrow> string \<Rightarrow> string \<Rightarrow> 'h BalancesState" where
  "updateAtaBalance s cluster addr bal p_mint p_tokenAccount =
     (let prevAtas = (case balances s cluster addr of None \<Rightarrow> [] | Some tk \<Rightarrow> atas tk);
          foundIndex = findIndex (\<lambda>a. tokenAccount a = p_tokenAccount \<and> mint a = p_mint) prevAtas
      in case foundIndex of
           None \<Rightarrow> s
         | Some i \<Rightarrow>
             (case balances s cluster addr of
                None \<Rightarrow> s
              | Some tk \<Rightarrow>
                  set_tokens s cluster addr
                    (tk\<lparr> atas := prevAtas[i := (prevAtas ! i)\<lparr> balance := bal \<rparr>] \<rparr>)))"

definition syncTokenAccounts_pending :: "'h BalancesState \<Rightarrow> 'h BalancesState" where
  "syncTokenAccounts_pending s = s\<lparr> balancesLoading := Some True \<rparr>"

text \<open>
  \<^verbatim>\<open>syncTokenAccounts.fulfilled\<close>: \<^verbatim>\<open>args\<close> is \<^verbatim>\<open>action.meta.arg\<close> (tested with \<^verbatim>\<open>args?.\<close>),
  the payload is the snapshot the thunk returned.
\<close>

definition syncTokenAccounts_fulfilled ::
  "'h BalancesState \<Rightarrow> SyncArgs option \<Rightarrow> Tokens \<Rightarrow> 'h BalancesState" where
  "syncTokenAccounts_fulfilled s args payload =
     (case args of
        None \<Rightarrow> s
      | Some a \<Rightarrow>
          (case (solanaAddress (arg_acct a), arg_cluster a) of
             (Some addr, Some cluster) \<Rightarrow>
               if addr = [] then s
               else set_tokens (s\<lparr> balancesLoading := Some False \<rparr>) cluster addr payload
           | _ \<Rightarrow> s))"

definition syncTokenAccounts_rejected :: "'h BalancesState \<Rightarrow> 'h BalancesState" where
  "syncTokenAccounts_rejected s = s\<lparr> balancesLoading := Some False \<rparr>"

text \<open>
  \<^verbatim>\<open>readTokenPrices.fulfilled\<close>: a missing \<^verbatim>\<open>tokenPrices\<close> is first created with four empty
  records; then the entry of the currency is copied from the payload, token by token.
\<close>

definition emptyPrices :: Prices where
  "emptyPrices =
     \<lparr> helium = Map.empty, solana = Map.empty, helium_iot = Map.empty, helium_mobile = Map.empty \<rparr>"

definition readTokenPrices_fulfilled ::
  "'h BalancesState \<Rightarrow> string \<Rightarrow> Prices \<Rightarrow> 'h BalancesState" where
  "readTokenPrices_fulfilled s currency payload =
     (let tp = (case tokenPrices s of None \<Rightarrow> emptyPrices | Some p \<Rightarrow> p);
          tp1 = tp\<lparr> helium := (helium tp)(currency := helium payload currency) \<rparr>;
          tp2 = tp1\<lparr> helium_mobile := (helium_mobile tp1)(currency := helium_mobile payload currency) \<rparr>;
          tp3 = tp2\<lparr> helium_iot := (helium_iot tp2)(currency := helium_iot payload currency) \<rparr>;
          tp4 = tp3\<lparr> solana := (solana tp3)(currency := solana payload currency) \<rparr>
      in s\<lparr> tokenPrices := Some tp4 \<rparr>)"

text \<open>
  \<^verbatim>\<open>readBalanceHistory.fulfilled\<close>: the per-wallet record is created when missing, then the
  series of the currency is replaced.
\<close>

definition readBalanceHistory_fulfilled ::
  "'h BalancesState \<Rightarrow> Cluster \<Rightarrow> string \<Rightarrow> string \<Rightarrow> 'h list \<Rightarrow> 'h BalancesState" where
  "readBalanceHistory_fulfilled s cluster addr currency payload =
     (let byCurrency = (case balanceHistory s cluster addr of None \<Rightarrow> Map.empty | Some h \<Rightarrow> h)
      in s\<lparr> balanceHistory :=
              (balanceHistory s)(cluster := (balanceHistory s cluster)(addr \<mapsto> byCurrency(currency \<mapsto> payload))) \<rparr>)"

text \<open>The actions of the slice, and the reducer as one function of state and action.\<close>

datatype 'h BalancesAction =
    UpdateBalance Cluster string number BalanceType string
  | UpdateAtaBalance Cluster string number string string
  | SyncPending
  | SyncFulfilled "SyncArgs option" Tokens
  | SyncRejected
  | ReadTokenPricesFulfilled string Prices
  | ReadBalanceHistoryFulfilled Cluster string string "'h list"

fun reducer :: "'h BalancesState \<Rightarrow> 'h BalancesAction \<Rightarrow> 'h BalancesState" where
  "reducer s (UpdateBalance c a b ty t) = updateBalance s c a b ty t"
| "reducer s (UpdateAtaBalance c a b m t) = updateAtaBalance s c a b m t"
| "reducer s SyncPending = syncTokenAccounts_pending s"
| "reducer s (SyncFulfilled args p) = syncTokenAccounts_fulfilled s args p"
| "reducer s SyncRejected = syncTokenAccounts_rejected s"
| "reducer s (ReadTokenPricesFulfilled cur p) = readTokenPrices_fulfilled s cur p"
| "reducer s (ReadBalanceHistoryFulfilled c a cur p) = readBalanceHistory_fulfilled s c a cur p"

text \<open>The cluster an action acts on, when it names one.\<close>

fun action_cluster :: "'h BalancesAction \<Rightarrow> Cluster option" where
  "action_cluster (UpdateBalance c a b ty t) = Some c"
| "action_cluster (UpdateAtaBalance c a b m t) = Some c"
| "action_cluster (SyncFulfilled args p) = (case args of None \<Rightarrow> None | Some a \<Rightarrow> arg_cluster a)"
| "action_cluster (ReadBalanceHistoryFulfilled c a cur p) = Some c"
| "action_cluster _ = None"

section \<open>Collaborators, errors and effects\<close>

text \<open>
  What the code throws: \<^verbatim>\<open>new Error(msg)\<close> raised by the repository's own code, the
  runtime's \<^verbatim>\<open>TypeError\<close> on reading a property of \<^verbatim>\<open>undefined\<close>, and whatever a
  collaborator (the SDK, the node, the confirmation sheet) throws or rejects with.
\<close>

datatype error = Error string | TypeError | Failure

type_synonym bytes = "8 word list"

text \<open>A \<^verbatim>\<open>PublicKey\<close> is known by its base-58 text, which \<^verbatim>\<open>toBase58()\<close> returns.\<close>

type_synonym PublicKey = string

text \<open>Objects the code only passes on: opaque handles.\<close>

datatype Transaction = Transaction nat
datatype AnchorProvider = AnchorProvider nat
datatype WalletSignRef = WalletSignRef nat

text \<open>An entry of \<^verbatim>\<open>getTokenAccountsByOwner(...).value\<close>, and an \<^verbatim>\<open>AccountInfo\<close>.\<close>

record KeyedAccount =
  pubkey :: PublicKey
  account_data :: bytes

record AccountInfo =
  info_data :: bytes
  lamports :: number

text \<open>
  What \<^verbatim>\<open>AccountLayout.decode\<close> returns, as far as the code reads it. The amount is a
  \<^verbatim>\<open>u64\<close>, a \<^verbatim>\<open>bigint\<close>; the code tests it for absence (\<^verbatim>\<open>amount || 0\<close>).
\<close>

record RawAccount =
  raw_mint :: PublicKey
  raw_amount :: "64 word option"

text \<open>One payment of \<^verbatim>\<open>submitPayment\<close>; the hook reads \<^verbatim>\<open>balanceAmount.type.ticker\<close>.\<close>

record Payment =
  payee :: string
  balanceAmount_ticker :: string
  balanceAmount_value :: int
  payment_max :: "bool option"

text \<open>A collectable; \<open>compressed\<close> is \<^verbatim>\<open>collectable?.compression?.compressed\<close>.\<close>

record Collectable =
  collectable_id :: string
  compressed :: "bool option"

type_synonym Hotspot = string

text \<open>The request handed to \<^verbatim>\<open>walletSignBottomSheetRef.show\<close>; its \<^verbatim>\<open>type\<close> is always
  \<^verbatim>\<open>signTransaction\<close>.\<close>

record SignRequest =
  url :: string
  warning :: "string option"
  additionalMessage :: string
  serializedTxs :: "bytes list"

text \<open>The thunk actions of \<^verbatim>\<open>solanaSlice\<close> that the hook dispatches, with their arguments.\<close>

datatype SubmitAction =
    makePayment Transaction CSAccount Cluster AnchorProvider
  | makeCollectablePayment CSAccount Transaction Cluster AnchorProvider
  | sendTreasurySwap AnchorProvider Cluster Transaction
  | sendAnchorTxn Transaction AnchorProvider Cluster
  | claimRewards CSAccount "Transaction list" AnchorProvider Cluster
  | claimAllRewards CSAccount "Transaction list" AnchorProvider Cluster
  | sendMintDataCredits AnchorProvider Cluster Transaction
  | sendDelegateDataCredits AnchorProvider Cluster Transaction
  | sendUpdateIotInfo CSAccount AnchorProvider Cluster Transaction
  | sendUpdateMobileInfo CSAccount AnchorProvider Cluster Transaction

text \<open>
  What an operation does to the world, in order: a call to the node, the construction of
  a transaction by \<^verbatim>\<open>solanaUtils\<close>, a request to the confirmation sheet, a dispatch.
\<close>

datatype event =
    NetworkCall string
  | BuildTxn string
  | Show SignRequest
  | Dispatch SubmitAction

text \<open>
  The collaborators, each as the function from its arguments to how the call settles
  (\<open>Inl\<close>: it throws or rejects). \<open>getAccountInfo\<close> and \<open>getTokenAccountsByOwner\<close> are
  those of \<^verbatim>\<open>anchorProvider.connection\<close>.
\<close>

record Collaborators =
  i18n_t :: "string \<Rightarrow> string"
  newPublicKey :: "string \<Rightarrow> error + PublicKey"
  getTokenAccountsByOwner :: "PublicKey \<Rightarrow> error + KeyedAccount list"
  getAccountInfo :: "PublicKey \<Rightarrow> error + AccountInfo option"
  AccountLayout_decode :: "bytes \<Rightarrow> error + RawAccount"
  getEscrowTokenAccount :: "string \<Rightarrow> error + PublicKey"
  toMintAddress :: "string \<Rightarrow> error + PublicKey"
  transferToken ::
    "AnchorProvider \<Rightarrow> string \<Rightarrow> string \<Rightarrow> Payment list \<Rightarrow> PublicKey option \<Rightarrow> error + Transaction"
  transferCompressedCollectable ::
    "AnchorProvider \<Rightarrow> string \<Rightarrow> string \<Rightarrow> Collectable \<Rightarrow> string \<Rightarrow> error + Transaction"
  transferCollectable ::
    "AnchorProvider \<Rightarrow> string \<Rightarrow> string \<Rightarrow> Collectable \<Rightarrow> string \<Rightarrow> error + Transaction"
  createTreasurySwapTxn ::
    "number \<Rightarrow> PublicKey \<Rightarrow> AnchorProvider \<Rightarrow> PublicKey \<Rightarrow> error + Transaction"
  claimAllRewardsTxns ::
    "AnchorProvider \<Rightarrow> PublicKey list \<Rightarrow> Hotspot list \<Rightarrow> error + Transaction list"
  mintDataCredits :: "AnchorProvider \<Rightarrow> number \<Rightarrow> PublicKey \<Rightarrow> error + Transaction"
  delegateDataCredits ::
    "AnchorProvider \<Rightarrow> string \<Rightarrow> number \<Rightarrow> PublicKey \<Rightarrow> error + Transaction"
  updateEntityInfoTxn ::
    "AnchorProvider \<Rightarrow> string \<Rightarrow> string \<Rightarrow> number \<Rightarrow> number \<Rightarrow> number option \<Rightarrow> number option
       \<Rightarrow> error + Transaction"
  parseFloat :: "string \<Rightarrow> number"
  serialize :: "Transaction \<Rightarrow> error + bytes"
  sheet_show :: "WalletSignRef \<Rightarrow> SignRequest \<Rightarrow> error + bool"

text \<open>
  An asynchronous operation run to its end: how it settles (\<open>Inl\<close>: the promise rejects)
  and the events it left behind, oldest first.
\<close>

type_synonym 'a run = "(error + 'a) \<times> event list"

definition resolve :: "'a \<Rightarrow> 'a run" where
  "resolve x = (Inr x, [])"

definition throw :: "error \<Rightarrow> 'a run" where
  "throw e = (Inl e, [])"

text \<open>A local computation that may throw, and a call that leaves an event.\<close>

definition lift :: "error + 'a \<Rightarrow> 'a run" where
  "lift r = (r, [])"

definition call :: "event \<Rightarrow> error + 'a \<Rightarrow> 'a run" where
  "call ev r = (r, [ev])"

text \<open>Sequencing with \<^verbatim>\<open>await\<close>: a rejection ends the operation.\<close>

definition bind :: "'a run \<Rightarrow> ('a \<Rightarrow> 'b run) \<Rightarrow> 'b run" where
  "bind m f =
     (case m of
        (Inl e, tr) \<Rightarrow> (Inl e, tr)
      | (Inr x, tr) \<Rightarrow> (case f x of (r, tr') \<Rightarrow> (r, tr @ tr')))"

text \<open>
  \<^verbatim>\<open>Promise.all\<close> of two calls: both are started, and the result rejects when either
  does.
\<close>

definition promise_all2 :: "'a run \<Rightarrow> 'b run \<Rightarrow> ('a \<times> 'b) run" where
  "promise_all2 m1 m2 =
     (case (m1, m2) of
        ((Inl e, tr1), (_, tr2)) \<Rightarrow> (Inl e, tr1 @ tr2)
      | ((Inr x, tr1), (Inl e, tr2)) \<Rightarrow> (Inl e, tr1 @ tr2)
      | ((Inr x, tr1), (Inr y, tr2)) \<Rightarrow> (Inr (x, y), tr1 @ tr2))"

section \<open>The thunk \<^verbatim>\<open>syncTokenAccounts\<close>\<close>

text \<open>
  \<^verbatim>\<open>Number(b)\<close> of a non-negative \<^verbatim>\<open>bigint\<close> is the double nearest to it, ties to the
  even significand (ECMAScript, \<^verbatim>\<open>Number ( value )\<close>). A double has a significand of 53
  bits: an integer of at most 53 bits is a double; a longer one loses its \<open>e\<close> low bits,
  rounded. The result is again an integer, and is given as one. No \<^verbatim>\<open>u64\<close> overflows.
\<close>

fun bit_length :: "nat \<Rightarrow> nat" where
  "bit_length n = (if n = 0 then 0 else Suc (bit_length (n div 2)))"

declare bit_length.simps [simp del]

definition nearest_double :: "nat \<Rightarrow> nat" where
  "nearest_double n =
     (let e = bit_length n - 53 in
      if e = 0 then n
      else
        (let q = n div 2 ^ e; r = n mod 2 ^ e; h = 2 ^ (e - 1)
         in (if r < h \<or> (r = h \<and> even q) then q else q + 1) * 2 ^ e))"

text \<open>\<^verbatim>\<open>Number(accountData.amount || 0)\<close>: a missing amount and \<^verbatim>\<open>0n\<close> are falsy.\<close>

definition Number_amount :: "64 word option \<Rightarrow> number" where
  "Number_amount amt =
     (case amt of
        None \<Rightarrow> 0
      | Some a \<Rightarrow> if a = 0 then 0 else real (nearest_double (unat a)))"

text \<open>
  \<^verbatim>\<open>new BN(s).toNumber()\<close> of \<^verbatim>\<open>bn.js\<close>: a value of more than 53 bits fails its
  assertion.
\<close>

definition BN_toNumber :: "nat \<Rightarrow> error + number" where
  "BN_toNumber n =
     (if n < 2 ^ 53 then Inr (real n)
      else Inl (Error ''Number can only safely store up to 53 bits''))"

text \<open>The callback of \<^verbatim>\<open>tokenAccounts.value.map\<close>, entry after entry; a failing decode
  ends the thunk.\<close>

fun decode_atas :: "Collaborators \<Rightarrow> KeyedAccount list \<Rightarrow> error + TokenAccount list" where
  "decode_atas env [] = Inr []"
| "decode_atas env (ta # rest) =
     (case AccountLayout_decode env (account_data ta) of
        Inl e \<Rightarrow> Inl e
      | Inr accountData \<Rightarrow>
          (case decode_atas env rest of
             Inl e \<Rightarrow> Inl e
           | Inr tail_atas \<Rightarrow>
               Inr (\<lparr> tokenAccount = pubkey ta, mint = raw_mint accountData,
                      balance = Number_amount (raw_amount accountData) \<rparr> # tail_atas)))"

text \<open>The body of the \<^verbatim>\<open>try\<close> block: the value assigned to \<^verbatim>\<open>escrowBalance\<close>, or what
  was thrown.\<close>

definition escrow_try :: "Collaborators \<Rightarrow> AccountInfo option \<Rightarrow> error + number" where
  "escrow_try env dcEscrowAcc =
     (case dcEscrowAcc of
        None \<Rightarrow> Inr 0
      | Some info \<Rightarrow>
          (case AccountLayout_decode env (info_data info) of
             Inl e \<Rightarrow> Inl e
           | Inr accountData \<Rightarrow>
               (case raw_amount accountData of
                  None \<Rightarrow> Inr 0
                | Some a \<Rightarrow> if a = 0 then Inr 0 else BN_toNumber (unat a))))"

text \<open>\<^verbatim>\<open>let escrowBalance = 0; try { ... } catch {}\<close>.\<close>

definition escrowBalance_of :: "Collaborators \<Rightarrow> AccountInfo option \<Rightarrow> number" where
  "escrowBalance_of env dcEscrowAcc =
     (case escrow_try env dcEscrowAcc of Inl _ \<Rightarrow> 0 | Inr b \<Rightarrow> b)"

text \<open>\<^verbatim>\<open>acct?.solanaAddress\<close>.\<close>

definition opt_solanaAddress :: "CSAccount option \<Rightarrow> string option" where
  "opt_solanaAddress acct = (case acct of None \<Rightarrow> None | Some a \<Rightarrow> solanaAddress a)"

text \<open>
  The payload creator of \<^verbatim>\<open>syncTokenAccounts\<close>. The cluster argument is not used; the
  collaborators stand for \<^verbatim>\<open>anchorProvider.connection\<close>.
\<close>

definition syncTokenAccounts :: "Collaborators \<Rightarrow> Cluster \<Rightarrow> CSAccount option \<Rightarrow> Tokens run" where
  "syncTokenAccounts env unused_cluster acct =
     (case opt_solanaAddress acct of
        None \<Rightarrow> throw (Error ''No solana account found'')
      | Some addr \<Rightarrow>
          if addr = [] then throw (Error ''No solana account found'')
          else
            bind (lift (newPublicKey env addr)) (\<lambda>pubKey.
            bind (call (NetworkCall ''getTokenAccountsByOwner'') (getTokenAccountsByOwner env pubKey))
              (\<lambda>tokenAccounts.
            bind (lift (decode_atas env tokenAccounts)) (\<lambda>atas'.
            bind (lift (getEscrowTokenAccount env addr)) (\<lambda>escrowAccount.
            bind (promise_all2
                    (call (NetworkCall ''getAccountInfo'') (getAccountInfo env escrowAccount))
                    (call (NetworkCall ''getAccountInfo'') (getAccountInfo env pubKey)))
              (\<lambda>(dcEscrowAcc, solAcc).
                 resolve
                   \<lparr> atas = atas',
                     sol = \<lparr> nb_tokenAccount = addr,
                             nb_balance = (case solAcc of None \<Rightarrow> 0 | Some i \<Rightarrow> lamports i) \<rparr>,
                     dcEscrow = \<lparr> nb_tokenAccount = escrowAccount,
                                  nb_balance = escrowBalance_of env dcEscrowAcc \<rparr> \<rparr>))))))"

section \<open>The hook \<^verbatim>\<open>useSubmitTxn\<close>\<close>

text \<open>What the hook closes over: the values of \<^verbatim>\<open>useAccountStorage\<close>, \<^verbatim>\<open>useSolana\<close> and
  \<^verbatim>\<open>useWalletSign\<close>.\<close>

record HookContext =
  currentAccount :: "CSAccount option"
  cluster :: Cluster
  anchorProvider :: "AnchorProvider option"
  walletSignBottomSheetRef :: "WalletSignRef option"

text \<open>
  The step every operation repeats: \<^verbatim>\<open>const decision = await
  walletSignBottomSheetRef.show(request)\<close>, then \<^verbatim>\<open>if (!decision) throw new Error('User
  rejected transaction')\<close>.
\<close>

definition request_decision :: "Collaborators \<Rightarrow> WalletSignRef \<Rightarrow> SignRequest \<Rightarrow> unit run" where
  "request_decision env ref request =
     bind (call (Show request) (sheet_show env ref request)) (\<lambda>decision.
       if \<not> decision then throw (Error ''User rejected transaction'') else resolve ())"

text \<open>\<^verbatim>\<open>dispatch(action)\<close>: the promise of a thunk action never rejects.\<close>

definition dispatch :: "SubmitAction \<Rightarrow> unit run" where
  "dispatch a = call (Dispatch a) (Inr ())"

text \<open>\<^verbatim>\<open>txns.map((txn) => txn.serialize(...))\<close>.\<close>

fun serialize_all :: "Collaborators \<Rightarrow> Transaction list \<Rightarrow> error + bytes list" where
  "serialize_all env [] = Inr []"
| "serialize_all env (txn # txns) =
     (case serialize env txn of
        Inl e \<Rightarrow> Inl e
      | Inr b \<Rightarrow> (case serialize_all env txns of Inl e \<Rightarrow> Inl e | Inr bs \<Rightarrow> Inr (b # bs)))"

text \<open>The mint of the first payment; reading the first payment of an empty list throws.\<close>

definition payment_mintAddress :: "Collaborators \<Rightarrow> Payment list \<Rightarrow> error + PublicKey option" where
  "payment_mintAddress env payments =
     (case payments of
        [] \<Rightarrow> Inl TypeError
      | firstPayment # _ \<Rightarrow>
          if balanceAmount_ticker firstPayment \<noteq> ''SOL''
          then (case toMintAddress env (balanceAmount_ticker firstPayment) of
                  Inl e \<Rightarrow> Inl e
                | Inr m \<Rightarrow> Inr (Some m))
          else Inr None)"

definition submitPayment :: "HookContext \<Rightarrow> Collaborators \<Rightarrow> Payment list \<Rightarrow> unit run" where
  "submitPayment ctx env payments =
     (case (currentAccount ctx, anchorProvider ctx, walletSignBottomSheetRef ctx) of
        (Some acct, Some provider, Some ref) \<Rightarrow>
          (case solanaAddress acct of
             None \<Rightarrow> throw (Error (i18n_t env ''errors.account''))
           | Some addr \<Rightarrow>
               if addr = [] then throw (Error (i18n_t env ''errors.account''))
               else
                 bind (lift (payment_mintAddress env payments)) (\<lambda>mintAddress.
                 bind (call (BuildTxn ''transferToken'')
                         (transferToken env provider addr (address acct) payments mintAddress))
                   (\<lambda>paymentTxn.
                 bind (lift (serialize env paymentTxn)) (\<lambda>serializedTx.
                 bind (request_decision env ref
                         \<lparr> url = [], warning = None,
                           additionalMessage = i18n_t env ''transactions.signPaymentTxn'',
                           serializedTxs = [serializedTx] \<rparr>)
                   (\<lambda>_. dispatch (makePayment paymentTxn acct (cluster ctx) provider))))))
      | _ \<Rightarrow> throw (Error (i18n_t env ''errors.account'')))"

definition submitCollectable ::
  "HookContext \<Rightarrow> Collaborators \<Rightarrow> Collectable \<Rightarrow> string \<Rightarrow> unit run" where
  "submitCollectable ctx env collectable payee' =
     (case (currentAccount ctx, anchorProvider ctx, walletSignBottomSheetRef ctx) of
        (Some acct, Some provider, Some ref) \<Rightarrow>
          (case solanaAddress acct of
             None \<Rightarrow> throw (Error (i18n_t env ''errors.account''))
           | Some addr \<Rightarrow>
               if addr = [] then throw (Error (i18n_t env ''errors.account''))
               else
                 bind (if compressed collectable = Some True
                       then call (BuildTxn ''transferCompressedCollectable'')
                              (transferCompressedCollectable env provider addr (address acct)
                                 collectable payee')
                       else call (BuildTxn ''transferCollectable'')
                              (transferCollectable env provider addr (address acct)
                                 collectable payee'))
                   (\<lambda>transferTxn.
                 bind (lift (serialize env transferTxn)) (\<lambda>serializedTx.
                 bind (request_decision env ref
                         \<lparr> url = [], warning = None,
                           additionalMessage = i18n_t env ''transactions.signTransferCollectableTxn'',
                           serializedTxs = [serializedTx] \<rparr>)
                   (\<lambda>_. dispatch (makeCollectablePayment acct transferTxn (cluster ctx) provider)))))
      | _ \<Rightarrow> throw (Error (i18n_t env ''errors.account'')))"

text \<open>\<^verbatim>\<open>warning: recipientExists ? '' : t('transactions.recipientNonExistent')\<close>.\<close>

definition recipient_warning :: "Collaborators \<Rightarrow> AccountInfo option \<Rightarrow> string option" where
  "recipient_warning env info =
     (if info \<noteq> None then Some [] else Some (i18n_t env ''transactions.recipientNonExistent''))"

definition submitTreasurySwap ::
  "HookContext \<Rightarrow> Collaborators \<Rightarrow> PublicKey \<Rightarrow> number \<Rightarrow> PublicKey \<Rightarrow> unit run" where
  "submitTreasurySwap ctx env fromMint amount recipient =
     (case (currentAccount ctx, anchorProvider ctx, walletSignBottomSheetRef ctx) of
        (Some acct, Some provider, Some ref) \<Rightarrow>
          bind (call (NetworkCall ''getAccountInfo'') (getAccountInfo env recipient)) (\<lambda>recipientInfo.
          bind (call (BuildTxn ''createTreasurySwapTxn'')
                  (createTreasurySwapTxn env amount fromMint provider recipient))
            (\<lambda>swapTxn.
          bind (lift (serialize env swapTxn)) (\<lambda>serializedTx.
          bind (request_decision env ref
                  \<lparr> url = [], warning = recipient_warning env recipientInfo,
                    additionalMessage = i18n_t env ''transactions.signSwapTxn'',
                    serializedTxs = [serializedTx] \<rparr>)
            (\<lambda>_. dispatch (sendTreasurySwap provider (cluster ctx) swapTxn)))))
      | _ \<Rightarrow> throw (Error (i18n_t env ''errors.account'')))"

text \<open>\<^verbatim>\<open>submitAnchorTxn\<close> tests the provider and the sheet only.\<close>

definition submitAnchorTxn :: "HookContext \<Rightarrow> Collaborators \<Rightarrow> Transaction \<Rightarrow> unit run" where
  "submitAnchorTxn ctx env txn =
     (case (anchorProvider ctx, walletSignBottomSheetRef ctx) of
        (Some provider, Some ref) \<Rightarrow>
          bind (lift (serialize env txn)) (\<lambda>serializedTx.
          bind (request_decision env ref
                  \<lparr> url = [], warning = None,
                    additionalMessage = i18n_t env ''transactions.signGenericTxn'',
                    serializedTxs = [serializedTx] \<rparr>)
            (\<lambda>_. dispatch (sendAnchorTxn txn provider (cluster ctx))))
      | _ \<Rightarrow> throw (Error (i18n_t env ''errors.account'')))"

text \<open>\<^verbatim>\<open>submitClaimRewards\<close> makes its three tests one after the other.\<close>

definition submitClaimRewards :: "HookContext \<Rightarrow> Collaborators \<Rightarrow> Transaction list \<Rightarrow> unit run" where
  "submitClaimRewards ctx env txns =
     (case anchorProvider ctx of
        None \<Rightarrow> throw (Error (i18n_t env ''errors.account''))
      | Some provider \<Rightarrow>
          (case currentAccount ctx of
             None \<Rightarrow> throw (Error (i18n_t env ''errors.account''))
           | Some acct \<Rightarrow>
               (case walletSignBottomSheetRef ctx of
                  None \<Rightarrow> throw (Error ''No wallet sign bottom sheet ref'')
                | Some ref \<Rightarrow>
                    bind (lift (serialize_all env txns)) (\<lambda>serialized.
                    bind (request_decision env ref
                            \<lparr> url = [], warning = None,
                              additionalMessage = i18n_t env ''transactions.signClaimRewardsTxn'',
                              serializedTxs = serialized \<rparr>)
                      (\<lambda>_. dispatch (claimRewards acct txns provider (cluster ctx)))))))"

text \<open>In \<^verbatim>\<open>submitClaimAllRewards\<close> and \<^verbatim>\<open>submitUpdateEntityInfo\<close> the second test of the
  account repeats the first and never fires.\<close>

definition submitClaimAllRewards ::
  "HookContext \<Rightarrow> Collaborators \<Rightarrow> PublicKey list \<Rightarrow> Hotspot list \<Rightarrow> unit run" where
  "submitClaimAllRewards ctx env lazyDistributors hotspots =
     (case (anchorProvider ctx, currentAccount ctx, walletSignBottomSheetRef ctx) of
        (Some provider, Some acct, Some ref) \<Rightarrow>
          bind (call (BuildTxn ''claimAllRewardsTxns'')
                  (claimAllRewardsTxns env provider lazyDistributors hotspots))
            (\<lambda>txns.
          bind (lift (serialize_all env txns)) (\<lambda>serialized.
          bind (request_decision env ref
                  \<lparr> url = [], warning = None,
                    additionalMessage = i18n_t env ''transactions.signClaimAllRewardsTxn'',
                    serializedTxs = serialized \<rparr>)
            (\<lambda>_. dispatch (claimAllRewards acct txns provider (cluster ctx)))))
      | _ \<Rightarrow> throw (Error (i18n_t env ''errors.account'')))"

definition submitLedger :: "unit run" where
  "submitLedger = throw (Error ''Solana not yet supported for ledger devices'')"

definition submitMintDataCredits ::
  "HookContext \<Rightarrow> Collaborators \<Rightarrow> number \<Rightarrow> PublicKey \<Rightarrow> unit run" where
  "submitMintDataCredits ctx env dcAmount recipient =
     (case (currentAccount ctx, anchorProvider ctx, walletSignBottomSheetRef ctx) of
        (Some acct, Some provider, Some ref) \<Rightarrow>
          bind (call (NetworkCall ''getAccountInfo'') (getAccountInfo env recipient)) (\<lambda>recipientInfo.
          bind (call (BuildTxn ''mintDataCredits'') (mintDataCredits env provider dcAmount recipient))
            (\<lambda>swapTxn.
          bind (lift (serialize env swapTxn)) (\<lambda>serializedTx.
          bind (request_decision env ref
                  \<lparr> url = [], warning = recipient_warning env recipientInfo,
                    additionalMessage = i18n_t env ''transactions.signMintDataCreditsTxn'',
                    serializedTxs = [serializedTx] \<rparr>)
            (\<lambda>_. dispatch (sendMintDataCredits provider (cluster ctx) swapTxn)))))
      | _ \<Rightarrow> throw (Error (i18n_t env ''errors.account'')))"

definition submitDelegateDataCredits ::
  "HookContext \<Rightarrow> Collaborators \<Rightarrow> string \<Rightarrow> number \<Rightarrow> PublicKey \<Rightarrow> unit run" where
  "submitDelegateDataCredits ctx env delegateAddress amount mint' =
     (case (currentAccount ctx, anchorProvider ctx, walletSignBottomSheetRef ctx) of
        (Some acct, Some provider, Some ref) \<Rightarrow>
          bind (call (BuildTxn ''delegateDataCredits'')
                  (delegateDataCredits env provider delegateAddress amount mint'))
            (\<lambda>delegateDCTxn.
          bind (lift (serialize env delegateDCTxn)) (\<lambda>serializedTx.
          bind (request_decision env ref
                  \<lparr> url = [], warning = None,
                    additionalMessage = i18n_t env ''transactions.signDelegateDCTxn'',
                    serializedTxs = [serializedTx] \<rparr>)
            (\<lambda>_. dispatch (sendDelegateDataCredits provider (cluster ctx) delegateDCTxn))))
      | _ \<Rightarrow> throw (Error (i18n_t env ''errors.account'')))"

text \<open>\<^verbatim>\<open>elevation ? parseFloat(elevation) : undefined\<close>.\<close>

definition opt_parseFloat :: "Collaborators \<Rightarrow> string option \<Rightarrow> number option" where
  "opt_parseFloat env v =
     (case v of None \<Rightarrow> None | Some s \<Rightarrow> if s = [] then None else Some (parseFloat env s))"

text \<open>The arguments of \<^verbatim>\<open>submitUpdateEntityInfo\<close>; the hotspot type is the string the code
  compares with \<^verbatim>\<open>'iot'\<close> and \<^verbatim>\<open>'mobile'\<close>.\<close>

record EntityInfo =
  hotspotType :: string
  entityKey :: string
  lat :: number
  lng :: number
  elevation :: "string option"
  decimalGain :: "string option"

definition submitUpdateEntityInfo :: "HookContext \<Rightarrow> Collaborators \<Rightarrow> EntityInfo \<Rightarrow> unit run" where
  "submitUpdateEntityInfo ctx env info =
     (case (anchorProvider ctx, currentAccount ctx, walletSignBottomSheetRef ctx) of
        (Some provider, Some acct, Some ref) \<Rightarrow>
          bind (call (BuildTxn ''updateEntityInfoTxn'')
                  (updateEntityInfoTxn env provider (hotspotType info) (entityKey info)
                     (lat info) (lng info)
                     (opt_parseFloat env (elevation info)) (opt_parseFloat env (decimalGain info))))
            (\<lambda>updateInfoTxn.
          bind (lift (serialize env updateInfoTxn)) (\<lambda>serializedTx.
          bind (request_decision env ref
                  \<lparr> url = [], warning = None,
                    additionalMessage = i18n_t env ''transactions.signAssertLocationTxn'',
                    serializedTxs = [serializedTx] \<rparr>)
            (\<lambda>_.
          bind (if hotspotType info = ''iot''
                then dispatch (sendUpdateIotInfo acct provider (cluster ctx) updateInfoTxn)
                else resolve ())
            (\<lambda>_.
               if hotspotType info = ''mobile''
               then dispatch (sendUpdateMobileInfo acct provider (cluster ctx) updateInfoTxn)
               else resolve ()))))
      | _ \<Rightarrow> throw (Error (i18n_t env ''errors.account'')))"

text \<open>A call of one of the operations the hook returns, and its run.\<close>

datatype SubmitCall =
    SubmitPayment "Payment list"
  | SubmitCollectable Collectable string
  | SubmitTreasurySwap PublicKey number PublicKey
  | SubmitAnchorTxn Transaction
  | SubmitClaimRewards "Transaction list"
  | SubmitClaimAllRewards "PublicKey list" "Hotspot list"
  | SubmitLedger
  | SubmitMintDataCredits number PublicKey
  | SubmitDelegateDataCredits string number PublicKey
  | SubmitUpdateEntityInfo EntityInfo

fun submit :: "HookContext \<Rightarrow> Collaborators \<Rightarrow> SubmitCall \<Rightarrow> unit run" where
  "submit ctx env (SubmitPayment payments) = submitPayment ctx env payments"
| "submit ctx env (SubmitCollectable c p) = submitCollectable ctx env c p"
| "submit ctx env (SubmitTreasurySwap m n r) = submitTreasurySwap ctx env m n r"
| "submit ctx env (SubmitAnchorTxn txn) = submitAnchorTxn ctx env txn"
| "submit ctx env (SubmitClaimRewards txns) = submitClaimRewards ctx env txns"
| "submit ctx env (SubmitClaimAllRewards ds hs) = submitClaimAllRewards ctx env ds hs"
| "submit ctx env SubmitLedger = submitLedger"
| "submit ctx env (SubmitMintDataCredits n r) = submitMintDataCredits ctx env n r"
| "submit ctx env (SubmitDelegateDataCredits d n m) = submitDelegateDataCredits ctx env d n m"
| "submit ctx env (SubmitUpdateEntityInfo info) = submitUpdateEntityInfo ctx env info"

text \<open>
  The preconditions an operation can lack, which of them the opening test of each
  operation asks for, and when a context lacks one.
\<close>

datatype Precondition = ActiveAccount | AccountSolanaAddress | Provider | ConfirmationSheet

fun required :: "SubmitCall \<Rightarrow> Precondition set" where
  "required (SubmitPayment _) = {ActiveAccount, AccountSolanaAddress, Provider, ConfirmationSheet}"
| "required (SubmitCollectable _ _) = {ActiveAccount, AccountSolanaAddress, Provider, ConfirmationSheet}"
| "required (SubmitTreasurySwap _ _ _) = {ActiveAccount, Provider, ConfirmationSheet}"
| "required (SubmitAnchorTxn _) = {Provider, ConfirmationSheet}"
| "required (SubmitClaimRewards _) = {ActiveAccount, Provider, ConfirmationSheet}"
| "required (SubmitClaimAllRewards _ _) = {ActiveAccount, Provider, ConfirmationSheet}"
| "required SubmitLedger = {}"
| "required (SubmitMintDataCredits _ _) = {ActiveAccount, Provider, ConfirmationSheet}"
| "required (SubmitDelegateDataCredits _ _ _) = {ActiveAccount, Provider, ConfirmationSheet}"
| "required (SubmitUpdateEntityInfo _) = {ActiveAccount, Provider, ConfirmationSheet}"

fun lacks :: "HookContext \<Rightarrow> Precondition \<Rightarrow> bool" where
  "lacks ctx ActiveAccount = (currentAccount ctx = None)"
| "lacks ctx AccountSolanaAddress = (\<not> truthy (opt_solanaAddress (currentAccount ctx)))"
| "lacks ctx Provider = (anchorProvider ctx = None)"
| "lacks ctx ConfirmationSheet = (walletSignBottomSheetRef ctx = None)"

text \<open>The events of a run that are dispatches or requests to the sheet.\<close>

fun is_Dispatch :: "event \<Rightarrow> bool" where
  "is_Dispatch (Dispatch _) = True"
| "is_Dispatch _ = False"

fun is_Show :: "event \<Rightarrow> bool" where
  "is_Show (Show _) = True"
| "is_Show _ = False"

section \<open>Notions the properties are stated with\<close>

text \<open>The price stored for a token (a field of \<^verbatim>\<open>Prices\<close>) and a currency, if any.\<close>

definition stored_price ::
  "'h BalancesState \<Rightarrow> (Prices \<Rightarrow> string \<rightharpoonup> number) \<Rightarrow> string \<Rightarrow> number option" where
  "stored_price s token currency =
     (case tokenPrices s of None \<Rightarrow> None | Some p \<Rightarrow> token p currency)"

text \<open>A run that neither asks the sheet nor dispatches.\<close>

definition quiet :: "'a run \<Rightarrow> bool" where
  "quiet m = (\<forall>e \<in> set (snd m). \<not> is_Dispatch e \<and> \<not> is_Show e)"

text \<open>A run that dispatches nothing and, when it has asked the sheet, ends with the
  rejection error.\<close>

definition rejection :: "'a run \<Rightarrow> bool" where
  "rejection m =
     ((\<forall>e \<in> set (snd m). \<not> is_Dispatch e) \<and>
      ((\<exists>e \<in> set (snd m). is_Show e) \<longrightarrow> fst m = Inl (Error ''User rejected transaction'')))"

section \<open>Concrete instances\<close>

definition example_tokens :: Tokens where
  "example_tokens =
     \<lparr> atas = [\<lparr> tokenAccount = ''ata1'', mint = ''hnt'', balance = 7 \<rparr>,
               \<lparr> tokenAccount = ''ata2'', mint = ''iot'', balance = 9 \<rparr>],
       sol = \<lparr> nb_tokenAccount = ''wallet'', nb_balance = 3 \<rparr>,
       dcEscrow = \<lparr> nb_tokenAccount = ''escrow'', nb_balance = 0 \<rparr> \<rparr>"

definition example_state :: "unit BalancesState" where
  "example_state = set_tokens initialState Devnet ''wallet'' example_tokens"

definition example_prices :: "number \<Rightarrow> Prices" where
  "example_prices x =
     \<lparr> helium = [''usd'' \<mapsto> x], solana = [''usd'' \<mapsto> x + 1],
       helium_iot = [''usd'' \<mapsto> x + 2], helium_mobile = [''usd'' \<mapsto> x + 3] \<rparr>"

definition example_account :: CSAccount where
  "example_account = \<lparr> address = ''helium'', solanaAddress = Some ''wallet'' \<rparr>"

definition example_context :: HookContext where
  "example_context =
     \<lparr> currentAccount = Some example_account, cluster = Devnet,
       anchorProvider = Some (AnchorProvider 0),
       walletSignBottomSheetRef = Some (WalletSignRef 0) \<rparr>"

text \<open>
  Collaborators that all succeed, but for the decoding of the escrow account's empty
  data; the sheet answers \<open>decision\<close>.
\<close>

definition example_env :: "bool \<Rightarrow> Collaborators" where
  "example_env decision =
     \<lparr> i18n_t = (\<lambda>k. k),
       newPublicKey = Inr,
       getTokenAccountsByOwner =
         (\<lambda>_. Inr [\<lparr> pubkey = ''ata1'', account_data = [1] \<rparr>,
                   \<lparr> pubkey = ''ata2'', account_data = [2] \<rparr>]),
       getAccountInfo =
         (\<lambda>k. if k = ''escrow'' then Inr (Some \<lparr> info_data = [], lamports = 0 \<rparr>)
              else if k = ''wallet'' then Inr (Some \<lparr> info_data = [0], lamports = 5 \<rparr>)
              else Inr None),
       AccountLayout_decode =
         (\<lambda>d. if d = [] then Inl Failure
              else if d = [1] then Inr \<lparr> raw_mint = ''hnt'', raw_amount = Some 7 \<rparr>
              else Inr \<lparr> raw_mint = ''iot'', raw_amount = Some 0 \<rparr>),
       getEscrowTokenAccount = (\<lambda>_. Inr ''escrow''),
       toMintAddress = Inr,
       transferToken = (\<lambda>_ _ _ _ _. Inr (Transaction 1)),
       transferCompressedCollectable = (\<lambda>_ _ _ _ _. Inr (Transaction 2)),
       transferCollectable = (\<lambda>_ _ _ _ _. Inr (Transaction 3)),
       createTreasurySwapTxn = (\<lambda>_ _ _ _. Inr (Transaction 4)),
       claimAllRewardsTxns = (\<lambda>_ _ _. Inr [Transaction 5]),
       mintDataCredits = (\<lambda>_ _ _. Inr (Transaction 6)),
       delegateDataCredits = (\<lambda>_ _ _ _. Inr (Transaction 7)),
       updateEntityInfoTxn = (\<lambda>_ _ _ _ _ _ _. Inr (Transaction 8)),
       parseFloat = (\<lambda>_. 0),
       serialize = (\<lambda>_. Inr [0]),
       sheet_show = (\<lambda>_ _. Inr decision) \<rparr>"

definition example_payment :: Payment where
  "example_payment =
     \<lparr> payee = ''friend'', balanceAmount_ticker = ''SOL'', balanceAmount_value = 10,
       payment_max = None \<rparr>"

definition example_keyed_accounts :: "KeyedAccount list" where
  "example_keyed_accounts =
     [\<lparr> pubkey = ''ata1'', account_data = [1] \<rparr>, \<lparr> pubkey = ''ata2'', account_data = [2] \<rparr>]"

definition example_snapshot :: Tokens where
  "example_snapshot =
     \<lparr> atas = [\<lparr> tokenAccount = ''ata1'', mint = ''hnt'', balance = 7 \<rparr>,
               \<lparr> tokenAccount = ''ata2'', mint = ''iot'', balance = 0 \<rparr>],
       sol = \<lparr> nb_tokenAccount = ''wallet'', nb_balance = 5 \<rparr>,
       dcEscrow = \<lparr> nb_tokenAccount = ''escrow'', nb_balance = 0 \<rparr> \<rparr>"

section \<open>Properties of the reducers\<close>

lemma findIndex_None_iff: "findIndex p xs = None \<longleftrightarrow> (\<forall>x \<in> set xs. \<not> p x)"
  by (induction xs) (auto split: option.splits)

lemma balances_set_tokens:
  "balances (set_tokens s c a tk) c' a' = (if c' = c \<and> a' = a then Some tk else balances s c' a')"
  by (simp add: set_tokens_def)

lemma example_state_balances:
  "balances example_state c a = (if c = Devnet \<and> a = ''wallet'' then Some example_tokens else None)"
  by (simp add: example_state_def balances_set_tokens initialState_def)

text \<open>
  C2. A fulfilled \<^verbatim>\<open>syncTokenAccounts\<close> action whose arguments carry a cluster and an
  account with a (non-empty) \<^verbatim>\<open>solanaAddress\<close> stores its payload at
  \<^verbatim>\<open>state.balances[cluster][solanaAddress]\<close>, for the cluster and the address of its own
  arguments: whatever was there before, the entry is the payload afterwards, and no other
  (cluster, address) entry changes.
\<close>

theorem syncTokenAccounts_fulfilled_stores:
  assumes "arg_cluster a = Some c" and "solanaAddress (arg_acct a) = Some addr" and "addr \<noteq> []"
  shows "balances (syncTokenAccounts_fulfilled s (Some a) payload) c addr = Some payload \<and>
         (\<forall>c' addr'. (c', addr') \<noteq> (c, addr) \<longrightarrow>
            balances (syncTokenAccounts_fulfilled s (Some a) payload) c' addr' = balances s c' addr')"
  using assms by (simp add: syncTokenAccounts_fulfilled_def balances_set_tokens)

theorem syncTokenAccounts_fulfilled_stores_witness:
  "balances example_state Devnet ''wallet'' = Some example_tokens \<and>
   balances (syncTokenAccounts_fulfilled example_state
      (Some \<lparr> arg_cluster = Some Devnet, arg_acct = example_account \<rparr>)
      example_snapshot) Devnet ''wallet'' = Some example_snapshot \<and>
   balances (syncTokenAccounts_fulfilled example_state
      (Some \<lparr> arg_cluster = Some Devnet, arg_acct = example_account \<rparr>)
      example_snapshot) Testnet ''wallet'' = balances example_state Testnet ''wallet''"
  using syncTokenAccounts_fulfilled_stores
    [of "\<lparr> arg_cluster = Some Devnet, arg_acct = example_account \<rparr>"
        Devnet "''wallet''" example_state example_snapshot]
  by (simp add: example_account_def example_state_balances)

text \<open>
  C3. \<^verbatim>\<open>updateAtaBalance\<close> leaves the state as it is when no entry of
  \<^verbatim>\<open>state.balances[cluster][solanaAddress].atas\<close> has the token account and the mint of
  the action, also when the cluster and address have no snapshot at all.
\<close>

theorem updateAtaBalance_absent_unchanged:
  assumes "\<forall>tk. balances s c addr = Some tk \<longrightarrow>
             (\<forall>a \<in> set (atas tk). \<not> (tokenAccount a = ta \<and> mint a = m))"
  shows "updateAtaBalance s c addr bal m ta = s"
proof -
  have "findIndex (\<lambda>a. tokenAccount a = ta \<and> mint a = m)
          (case balances s c addr of None \<Rightarrow> [] | Some tk \<Rightarrow> atas tk) = None"
    using assms by (cases "balances s c addr") (auto simp: findIndex_None_iff)
  then show ?thesis by (simp add: updateAtaBalance_def Let_def)
qed

theorem updateAtaBalance_absent_unchanged_witness:
  "updateAtaBalance example_state Devnet ''wallet'' 100 ''mobile'' ''ata1'' = example_state \<and>
   updateAtaBalance example_state Testnet ''wallet'' 100 ''hnt'' ''ata1'' = example_state"
  using
    updateAtaBalance_absent_unchanged [of example_state Devnet "''wallet''" "''ata1''" "''mobile''" 100]
    updateAtaBalance_absent_unchanged [of example_state Testnet "''wallet''" "''ata1''" "''hnt''" 100]
  by (simp add: example_state_balances example_tokens_def)

text \<open>The entry that is present has its balance overwritten, and nothing else.\<close>

lemma updateAtaBalance_present_example:
  "balances (updateAtaBalance example_state Devnet ''wallet'' 100 ''iot'' ''ata2'') Devnet ''wallet''
     = Some (example_tokens
              \<lparr> atas := [\<lparr> tokenAccount = ''ata1'', mint = ''hnt'', balance = 7 \<rparr>,
                         \<lparr> tokenAccount = ''ata2'', mint = ''iot'', balance = 100 \<rparr>] \<rparr>)"
  by (simp add: updateAtaBalance_def example_state_balances balances_set_tokens example_tokens_def)

text \<open>
  C8. \<^verbatim>\<open>updateBalance\<close>, for \<^verbatim>\<open>'sol'\<close> as for \<^verbatim>\<open>'dcEscrow'\<close>, leaves the state as it is
  when \<^verbatim>\<open>state.balances[cluster][solanaAddress]\<close> has no entry.
\<close>

theorem updateBalance_absent_unchanged:
  "balances s c addr = None \<Longrightarrow> updateBalance s c addr bal ty ta = s"
  by (simp add: updateBalance_def)

theorem updateBalance_absent_unchanged_witness:
  "updateBalance example_state Devnet ''other'' 5 Sol ''other'' = example_state \<and>
   updateBalance example_state Mainnet_beta ''wallet'' 5 DcEscrow ''escrow'' = example_state"
  using updateBalance_absent_unchanged [of example_state Devnet "''other''" 5 Sol "''other''"]
    updateBalance_absent_unchanged [of example_state Mainnet_beta "''wallet''" 5 DcEscrow "''escrow''"]
  by (simp add: example_state_balances)

lemma updateBalance_present_example:
  "balances (updateBalance example_state Devnet ''wallet'' 5 Sol ''wallet'') Devnet ''wallet''
     = Some (example_tokens\<lparr> sol := \<lparr> nb_tokenAccount = ''wallet'', nb_balance = 5 \<rparr> \<rparr>)"
  by (simp add: updateBalance_def example_state_balances balances_set_tokens)

text \<open>
  C9. A fulfilled \<^verbatim>\<open>syncTokenAccounts\<close> action whose arguments are missing, or lack the
  account's \<^verbatim>\<open>solanaAddress\<close> or the cluster, leaves the whole state as it is; so the
  \<^verbatim>\<open>balancesLoading\<close> flag that the pending case has set stays \<^verbatim>\<open>true\<close>.
\<close>

theorem syncTokenAccounts_fulfilled_missing_args:
  assumes "args = None \<or>
           (\<exists>a. args = Some a \<and> (\<not> truthy (solanaAddress (arg_acct a)) \<or> arg_cluster a = None))"
  shows "syncTokenAccounts_fulfilled s args payload = s \<and>
         balancesLoading (syncTokenAccounts_fulfilled (syncTokenAccounts_pending s) args payload)
           = Some True"
  using assms
  by (auto simp: syncTokenAccounts_fulfilled_def syncTokenAccounts_pending_def truthy_def
           split: option.splits)

theorem syncTokenAccounts_fulfilled_missing_args_witness:
  "syncTokenAccounts_fulfilled example_state
      (Some \<lparr> arg_cluster = Some Devnet, arg_acct = \<lparr> address = ''h'', solanaAddress = None \<rparr> \<rparr>)
      example_snapshot = example_state \<and>
   balancesLoading (syncTokenAccounts_fulfilled (syncTokenAccounts_pending example_state)
      (Some \<lparr> arg_cluster = Some Devnet, arg_acct = \<lparr> address = ''h'', solanaAddress = None \<rparr> \<rparr>)
      example_snapshot) = Some True"
  using syncTokenAccounts_fulfilled_missing_args
    [of "Some \<lparr> arg_cluster = Some Devnet, arg_acct = \<lparr> address = ''h'', solanaAddress = None \<rparr> \<rparr>"
        example_state example_snapshot]
  by (simp add: truthy_def)

text \<open>
  C6. Whatever the action of the slice, the \<^verbatim>\<open>balances\<close> and the \<^verbatim>\<open>balanceHistory\<close> of
  every cluster other than the one the action acts on are the same before and after.
\<close>

theorem reducer_other_clusters_unchanged:
  assumes "action_cluster act \<noteq> Some c'"
  shows "balances (reducer s act) c' = balances s c' \<and>
         balanceHistory (reducer s act) c' = balanceHistory s c'"
proof (cases act)
  case (UpdateBalance c a b ty ta)
  with assms show ?thesis
    by (simp add: updateBalance_def set_tokens_def Let_def
          split: option.splits BalanceType.splits)
next
  case (UpdateAtaBalance c a b m ta)
  with assms show ?thesis
    by (simp add: updateAtaBalance_def set_tokens_def Let_def split: option.splits)
next
  case SyncPending
  then show ?thesis by (simp add: syncTokenAccounts_pending_def)
next
  case (SyncFulfilled args p)
  with assms show ?thesis
    by (auto simp: syncTokenAccounts_fulfilled_def set_tokens_def split: option.splits)
next
  case SyncRejected
  then show ?thesis by (simp add: syncTokenAccounts_rejected_def)
next
  case (ReadTokenPricesFulfilled cur p)
  then show ?thesis by (simp add: readTokenPrices_fulfilled_def Let_def)
next
  case (ReadBalanceHistoryFulfilled c a cur p)
  with assms show ?thesis by (simp add: readBalanceHistory_fulfilled_def Let_def)
qed

theorem reducer_other_clusters_unchanged_witness:
  "action_cluster (UpdateBalance Devnet ''wallet'' 5 Sol ''wallet'' :: unit BalancesAction)
     \<noteq> Some Testnet \<and>
   balances (reducer example_state (UpdateBalance Devnet ''wallet'' 5 Sol ''wallet'')) Testnet
     = balances example_state Testnet \<and>
   balanceHistory (reducer example_state (UpdateBalance Devnet ''wallet'' 5 Sol ''wallet'')) Testnet
     = balanceHistory example_state Testnet \<and>
   balanceHistory (reducer example_state (ReadBalanceHistoryFulfilled Mainnet_beta ''wallet'' ''usd'' [()]))
     Devnet = balanceHistory example_state Devnet"
  using
    reducer_other_clusters_unchanged
      [of "UpdateBalance Devnet ''wallet'' 5 Sol ''wallet''" Testnet example_state]
    reducer_other_clusters_unchanged
      [of "ReadBalanceHistoryFulfilled Mainnet_beta ''wallet'' ''usd'' [()]" Devnet example_state]
  by simp

text \<open>
  C7. A fulfilled \<^verbatim>\<open>readTokenPrices\<close> action for a currency writes under that currency
  only: for each of the four tokens, the price stored for any other currency is the same
  before and after.
\<close>

theorem readTokenPrices_fulfilled_other_currency:
  assumes "c' \<noteq> c"
  shows "stored_price (readTokenPrices_fulfilled s c payload) helium c' = stored_price s helium c' \<and>
         stored_price (readTokenPrices_fulfilled s c payload) solana c' = stored_price s solana c' \<and>
         stored_price (readTokenPrices_fulfilled s c payload) helium_iot c'
           = stored_price s helium_iot c' \<and>
         stored_price (readTokenPrices_fulfilled s c payload) helium_mobile c'
           = stored_price s helium_mobile c'"
  using assms
  by (simp add: stored_price_def readTokenPrices_fulfilled_def Let_def emptyPrices_def
        split: option.splits)

theorem readTokenPrices_fulfilled_other_currency_witness:
  "stored_price
     (readTokenPrices_fulfilled (example_state\<lparr> tokenPrices := Some (example_prices 2) \<rparr>)
        ''eur'' (example_prices 9))
     helium ''usd'' = Some 2 \<and>
   stored_price
     (readTokenPrices_fulfilled (example_state\<lparr> tokenPrices := Some (example_prices 2) \<rparr>)
        ''eur'' (example_prices 9))
     helium_mobile ''usd'' = Some 5"
  using readTokenPrices_fulfilled_other_currency
    [of "''usd''" "''eur''" "example_state\<lparr> tokenPrices := Some (example_prices 2) \<rparr>"
        "example_prices 9"]
  by (simp add: stored_price_def example_prices_def)

text \<open>Under the currency of the action, each token gets the price of the payload.\<close>

lemma readTokenPrices_fulfilled_currency:
  "stored_price (readTokenPrices_fulfilled s c payload) helium c = helium payload c \<and>
   stored_price (readTokenPrices_fulfilled s c payload) solana c = solana payload c \<and>
   stored_price (readTokenPrices_fulfilled s c payload) helium_iot c = helium_iot payload c \<and>
   stored_price (readTokenPrices_fulfilled s c payload) helium_mobile c = helium_mobile payload c"
  by (simp add: stored_price_def readTokenPrices_fulfilled_def Let_def emptyPrices_def
        split: option.splits)

section \<open>Runs: the laws of sequencing\<close>

lemma bind_Inl [simp]: "bind (Inl e, tr) f = (Inl e, tr)"
  by (simp add: bind_def)

lemma bind_Inr [simp]: "bind (Inr x, tr) f = (fst (f x), tr @ snd (f x))"
  by (simp add: bind_def split: prod.splits)

lemma bind_throw [simp]: "bind (throw e) f = throw e"
  by (simp add: throw_def)

lemma bind_resolve [simp]: "bind (resolve x) f = f x"
  by (simp add: resolve_def)

lemma bind_lift_Inl [simp]: "bind (lift (Inl e)) f = throw e"
  by (simp add: lift_def throw_def)

lemma bind_lift_Inr [simp]: "bind (lift (Inr x)) f = f x"
  by (simp add: lift_def)

lemma bind_call_Inl [simp]: "bind (call ev (Inl e)) f = (Inl e, [ev])"
  by (simp add: call_def)

lemma bind_call_Inr [simp]: "bind (call ev (Inr x)) f = (fst (f x), ev # snd (f x))"
  by (simp add: call_def)

lemma promise_all2_calls [simp]:
  "promise_all2 (call e1 (Inr x)) (call e2 (Inr y)) = (Inr (x, y), [e1, e2])"
  by (simp add: promise_all2_def call_def)

lemmas run_defs = throw_def resolve_def lift_def call_def dispatch_def request_decision_def

lemma quiet_simps [simp]:
  "quiet (throw e)" "quiet (resolve x)" "quiet (lift r)"
  "quiet (call (NetworkCall n) r)" "quiet (call (BuildTxn n) r)"
  by (simp_all add: quiet_def throw_def resolve_def lift_def call_def)

lemma rejection_throw [simp]: "rejection (throw e)"
  by (simp add: rejection_def throw_def)

text \<open>After a quiet step, what holds of every continuation holds of the whole.\<close>

lemma rejection_bind:
  assumes "quiet m" and "\<And>x. rejection (f x)"
  shows "rejection (bind m f)"
proof (cases m)
  case (Pair r tr)
  show ?thesis
  proof (cases r)
    case (Inl e)
    with Pair assms(1) show ?thesis
      by (auto simp: rejection_def quiet_def)
  next
    case (Inr x)
    obtain r' tr' where fx: "f x = (r', tr')" by (cases "f x")
    from assms(2) [of x] fx have "rejection (r', tr')" by simp
    with Pair Inr fx assms(1) show ?thesis
      by (auto simp: rejection_def quiet_def)
  qed
qed

lemma request_decision_False:
  "sheet_show env ref req = Inr False \<Longrightarrow>
   request_decision env ref req = (Inl (Error ''User rejected transaction''), [Show req])"
  by (simp add: request_decision_def throw_def)

lemma rejection_request_decision:
  "sheet_show env ref req = Inr False \<Longrightarrow> rejection (bind (request_decision env ref req) f)"
  by (simp add: request_decision_False rejection_def)

section \<open>Properties of the hook\<close>

lemma rejection_submit:
  assumes "\<forall>ref req. walletSignBottomSheetRef ctx = Some ref \<longrightarrow> sheet_show env ref req = Inr False"
  shows "rejection (submit ctx env op)"
proof (cases op)
  case (SubmitPayment payments)
  then show ?thesis using assms
    by (auto simp: submitPayment_def split: option.splits
             intro!: rejection_bind rejection_request_decision)
next
  case (SubmitCollectable cl py)
  then show ?thesis using assms
    by (auto simp: submitCollectable_def split: option.splits
             intro!: rejection_bind rejection_request_decision)
next
  case (SubmitTreasurySwap m n r)
  then show ?thesis using assms
    by (auto simp: submitTreasurySwap_def split: option.splits
             intro!: rejection_bind rejection_request_decision)
next
  case (SubmitAnchorTxn txn)
  then show ?thesis using assms
    by (auto simp: submitAnchorTxn_def split: option.splits
             intro!: rejection_bind rejection_request_decision)
next
  case (SubmitClaimRewards txns)
  then show ?thesis using assms
    by (auto simp: submitClaimRewards_def split: option.splits
             intro!: rejection_bind rejection_request_decision)
next
  case (SubmitClaimAllRewards ds hs)
  then show ?thesis using assms
    by (auto simp: submitClaimAllRewards_def split: option.splits
             intro!: rejection_bind rejection_request_decision)
next
  case SubmitLedger
  then show ?thesis by (simp add: submitLedger_def)
next
  case (SubmitMintDataCredits n r)
  then show ?thesis using assms
    by (auto simp: submitMintDataCredits_def split: option.splits
             intro!: rejection_bind rejection_request_decision)
next
  case (SubmitDelegateDataCredits d n m)
  then show ?thesis using assms
    by (auto simp: submitDelegateDataCredits_def split: option.splits
             intro!: rejection_bind rejection_request_decision)
next
  case (SubmitUpdateEntityInfo ei)
  then show ?thesis using assms
    by (auto simp: submitUpdateEntityInfo_def split: option.splits
             intro!: rejection_bind rejection_request_decision)
qed

text \<open>
  C1. When the confirmation sheet of the hook resolves to \<^verbatim>\<open>false\<close>, no operation of
  \<^verbatim>\<open>useSubmitTxn\<close> dispatches anything, and every operation that got as far as asking the
  sheet throws \<^verbatim>\<open>Error('User rejected transaction')\<close>.
\<close>

theorem rejected_confirmation_never_dispatches:
  assumes "\<forall>ref req. walletSignBottomSheetRef ctx = Some ref \<longrightarrow> sheet_show env ref req = Inr False"
  shows "(\<forall>e \<in> set (snd (submit ctx env op)). \<not> is_Dispatch e) \<and>
         ((\<exists>e \<in> set (snd (submit ctx env op)). is_Show e) \<longrightarrow>
            fst (submit ctx env op) = Inl (Error ''User rejected transaction''))"
  using rejection_submit [OF assms, of op] by (simp add: rejection_def)

theorem rejected_confirmation_never_dispatches_witness:
  "submit example_context (example_env False) (SubmitPayment [example_payment]) =
     (Inl (Error ''User rejected transaction''),
      [BuildTxn ''transferToken'',
       Show \<lparr> url = [], warning = None, additionalMessage = ''transactions.signPaymentTxn'',
              serializedTxs = [[0]] \<rparr>])"
proof -
  have h: "\<forall>ref req. walletSignBottomSheetRef example_context = Some ref \<longrightarrow>
             sheet_show (example_env False) ref req = Inr False"
    by (simp add: example_env_def)
  from rejected_confirmation_never_dispatches [OF h, of "SubmitPayment [example_payment]"]
  show ?thesis
    by (simp add: submitPayment_def example_context_def example_env_def example_account_def
          example_payment_def payment_mintAddress_def run_defs)
qed

text \<open>With an approving sheet the same call builds, asks and dispatches, in this order.\<close>

lemma submitPayment_approved_dispatches:
  "submit example_context (example_env True) (SubmitPayment [example_payment]) =
     (Inr (),
      [BuildTxn ''transferToken'',
       Show \<lparr> url = [], warning = None, additionalMessage = ''transactions.signPaymentTxn'',
              serializedTxs = [[0]] \<rparr>,
       Dispatch (makePayment (Transaction 1) example_account Devnet (AnchorProvider 0))])"
  by (simp add: submitPayment_def example_context_def example_env_def example_account_def
        example_payment_def payment_mintAddress_def run_defs)

text \<open>
  C5. An operation of \<^verbatim>\<open>useSubmitTxn\<close> that lacks one of the preconditions its opening test
  asks for (an active account, for \<^verbatim>\<open>submitPayment\<close> and \<^verbatim>\<open>submitCollectable\<close> one with
  a \<^verbatim>\<open>solanaAddress\<close>; the provider; the confirmation sheet) throws an \<^verbatim>\<open>Error\<close> with a
  message and has done nothing before: no call to the node, no transaction built, no
  request to the sheet, no dispatch. So does \<^verbatim>\<open>syncTokenAccounts\<close> for an account that is
  missing or has no \<^verbatim>\<open>solanaAddress\<close>.
\<close>

theorem missing_precondition_fails_fast:
  "((\<exists>p \<in> required op. lacks ctx p) \<longrightarrow>
      (submit ctx env op = (Inl (Error (i18n_t env ''errors.account'')), []) \<or>
       submit ctx env op = (Inl (Error ''No wallet sign bottom sheet ref''), []))) \<and>
   (\<not> truthy (opt_solanaAddress acct) \<longrightarrow>
      syncTokenAccounts env c acct = (Inl (Error ''No solana account found''), []))"
proof (intro conjI impI)
  assume "\<exists>p \<in> required op. lacks ctx p"
  then obtain p where p: "p \<in> required op" "lacks ctx p" by blast
  show "submit ctx env op = (Inl (Error (i18n_t env ''errors.account'')), []) \<or>
        submit ctx env op = (Inl (Error ''No wallet sign bottom sheet ref''), [])"
  proof (cases op)
    case (SubmitPayment payments)
    with p show ?thesis
      by (cases p)
         (auto simp: submitPayment_def throw_def truthy_def opt_solanaAddress_def
               split: option.splits)
  next
    case (SubmitCollectable cl py)
    with p show ?thesis
      by (cases p)
         (auto simp: submitCollectable_def throw_def truthy_def opt_solanaAddress_def
               split: option.splits)
  next
    case (SubmitTreasurySwap m n r)
    with p show ?thesis
      by (cases p) (auto simp: submitTreasurySwap_def throw_def split: option.splits)
  next
    case (SubmitAnchorTxn txn)
    with p show ?thesis
      by (cases p) (auto simp: submitAnchorTxn_def throw_def split: option.splits)
  next
    case (SubmitClaimRewards txns)
    with p show ?thesis
      by (cases p) (auto simp: submitClaimRewards_def throw_def split: option.splits)
  next
    case (SubmitClaimAllRewards ds hs)
    with p show ?thesis
      by (cases p) (auto simp: submitClaimAllRewards_def throw_def split: option.splits)
  next
    case SubmitLedger
    with p show ?thesis by simp
  next
    case (SubmitMintDataCredits n r)
    with p show ?thesis
      by (cases p) (auto simp: submitMintDataCredits_def throw_def split: option.splits)
  next
    case (SubmitDelegateDataCredits d n m)
    with p show ?thesis
      by (cases p) (auto simp: submitDelegateDataCredits_def throw_def split: option.splits)
  next
    case (SubmitUpdateEntityInfo ei)
    with p show ?thesis
      by (cases p) (auto simp: submitUpdateEntityInfo_def throw_def split: option.splits)
  qed
next
  assume "\<not> truthy (opt_solanaAddress acct)"
  then show "syncTokenAccounts env c acct = (Inl (Error ''No solana account found''), [])"
    by (auto simp: syncTokenAccounts_def truthy_def throw_def split: option.splits)
qed

theorem missing_precondition_fails_fast_witness:
  "submit (example_context\<lparr> walletSignBottomSheetRef := None \<rparr>) (example_env True)
      (SubmitAnchorTxn (Transaction 9)) = (Inl (Error ''errors.account''), []) \<and>
   syncTokenAccounts (example_env True) Devnet (Some (example_account\<lparr> solanaAddress := None \<rparr>))
     = (Inl (Error ''No solana account found''), [])"
proof -
  have h1: "\<exists>p \<in> required (SubmitAnchorTxn (Transaction 9)).
              lacks (example_context\<lparr> walletSignBottomSheetRef := None \<rparr>) p"
    by simp
  have h2: "\<not> truthy (opt_solanaAddress (Some (example_account\<lparr> solanaAddress := None \<rparr>)))"
    by (simp add: truthy_def opt_solanaAddress_def)
  from missing_precondition_fails_fast
         [of "SubmitAnchorTxn (Transaction 9)" "example_context\<lparr> walletSignBottomSheetRef := None \<rparr>"
             "example_env True" "Some (example_account\<lparr> solanaAddress := None \<rparr>)" Devnet]
       h1 h2
  show ?thesis by (simp add: example_env_def example_context_def submitAnchorTxn_def run_defs)
qed

text \<open>
  The opening test of \<^verbatim>\<open>submitAnchorTxn\<close> does not ask for an account: without one, and
  with an approving sheet, it asks the sheet and dispatches.
\<close>

lemma submitAnchorTxn_without_account:
  "submit (example_context\<lparr> currentAccount := None \<rparr>) (example_env True)
      (SubmitAnchorTxn (Transaction 9)) =
     (Inr (),
      [Show \<lparr> url = [], warning = None, additionalMessage = ''transactions.signGenericTxn'',
              serializedTxs = [[0]] \<rparr>,
       Dispatch (sendAnchorTxn (Transaction 9) (AnchorProvider 0) Devnet)])"
  by (simp add: submitAnchorTxn_def example_context_def example_env_def run_defs)

section \<open>Properties of the thunk\<close>

lemma bit_length_0: "bit_length 0 = 0"
  by (subst bit_length.simps) simp

lemma bit_length_odd: "bit_length (2 * n + 1) = Suc (bit_length n)"
  by (subst bit_length.simps) simp

lemma bit_length_double: "0 < n \<Longrightarrow> bit_length (2 * n) = Suc (bit_length n)"
  by (subst bit_length.simps) simp

lemma bit_length_power2: "bit_length (2 ^ k) = Suc k"
proof (induction k)
  case 0
  show ?case by (subst bit_length.simps) (simp add: bit_length_0)
next
  case (Suc k)
  then show ?case by (simp add: bit_length_double)
qed

lemma bit_length_le: "n < 2 ^ k \<Longrightarrow> bit_length n \<le> k"
proof (induction k arbitrary: n)
  case 0
  then show ?case by (simp add: bit_length_0)
next
  case (Suc k)
  show ?case
  proof (cases "n = 0")
    case True
    then show ?thesis by (simp add: bit_length_0)
  next
    case False
    from Suc.prems have "n div 2 < 2 ^ k" by simp
    then have "bit_length (n div 2) \<le> k" by (rule Suc.IH)
    moreover from False have "bit_length n = Suc (bit_length (n div 2))"
      by (subst bit_length.simps) simp
    ultimately show ?thesis by simp
  qed
qed

text \<open>Every integer up to \<open>2 ^ 53\<close> is a double.\<close>

lemma nearest_double_exact: "n \<le> 2 ^ 53 \<Longrightarrow> nearest_double n = n"
proof (cases "n < 2 ^ 53")
  case True
  then have "bit_length n - 53 = 0" using bit_length_le [of n 53] by simp
  then show ?thesis by (simp add: nearest_double_def)
next
  case False
  assume "n \<le> 2 ^ 53"
  with False have n: "n = 2 ^ 53" by simp
  have b0: "bit_length (2 ^ 53) = Suc 53" by (rule bit_length_power2)
  have b: "bit_length (2 ^ 53) - 53 = 1" unfolding b0 by simp
  have "nearest_double (2 ^ 53) = 2 ^ 53"
    unfolding nearest_double_def Let_def b by simp
  with n show ?thesis by simp
qed

text \<open>The next integer is not: it is rounded to the even neighbour.\<close>

lemma nearest_double_rounds: "nearest_double (2 ^ 53 + 1) = 2 ^ 53"
proof -
  have e: "(2::nat) ^ 53 + 1 = 2 * 2 ^ 52 + 1" by simp
  have b0: "bit_length (2 ^ 53 + 1) = Suc 53"
    by (simp only: e bit_length_odd bit_length_power2)
  have b: "bit_length (2 ^ 53 + 1) - 53 = 1" unfolding b0 by simp
  show ?thesis unfolding nearest_double_def Let_def b by simp
qed

lemma decode_atas_length: "decode_atas env xs = Inr ys \<Longrightarrow> length ys = length xs"
  by (induction xs arbitrary: ys) (auto split: sum.splits)

lemma decode_atas_nth:
  assumes "decode_atas env xs = Inr ys" and "i < length xs"
    and "AccountLayout_decode env (account_data (xs ! i)) = Inr d"
  shows "ys ! i = \<lparr> tokenAccount = pubkey (xs ! i), mint = raw_mint d,
                    balance = Number_amount (raw_amount d) \<rparr>"
  using assms
proof (induction xs arbitrary: ys i)
  case Nil
  then show ?case by simp
next
  case (Cons x xs)
  from Cons.prems(1) obtain d0 zs where
    d0: "AccountLayout_decode env (account_data x) = Inr d0" and
    zs: "decode_atas env xs = Inr zs" and
    ys: "ys = \<lparr> tokenAccount = pubkey x, mint = raw_mint d0,
                 balance = Number_amount (raw_amount d0) \<rparr> # zs"
    by (auto split: sum.splits)
  show ?case
  proof (cases i)
    case 0
    with Cons.prems d0 ys show ?thesis by simp
  next
    case (Suc j)
    with Cons.prems have "j < length xs" "AccountLayout_decode env (account_data (xs ! j)) = Inr d"
      by simp_all
    from Cons.IH [OF zs this] Suc ys show ?thesis by simp
  qed
qed

text \<open>The run of the thunk when every step before the \<^verbatim>\<open>try\<close> block succeeds.\<close>

lemma syncTokenAccounts_success:
  assumes "opt_solanaAddress acct = Some addr" and "addr \<noteq> []"
    and "newPublicKey env addr = Inr pubKey"
    and "getTokenAccountsByOwner env pubKey = Inr tokenAccounts"
    and "decode_atas env tokenAccounts = Inr decoded"
    and "getEscrowTokenAccount env addr = Inr escrowAccount"
    and "getAccountInfo env escrowAccount = Inr dcEscrowAcc"
    and "getAccountInfo env pubKey = Inr solAcc"
  shows "syncTokenAccounts env c acct =
           (Inr \<lparr> atas = decoded,
                  sol = \<lparr> nb_tokenAccount = addr,
                          nb_balance = (case solAcc of None \<Rightarrow> 0 | Some i \<Rightarrow> lamports i) \<rparr>,
                  dcEscrow = \<lparr> nb_tokenAccount = escrowAccount,
                               nb_balance = escrowBalance_of env dcEscrowAcc \<rparr> \<rparr>,
            [NetworkCall ''getTokenAccountsByOwner'', NetworkCall ''getAccountInfo'',
             NetworkCall ''getAccountInfo''])"
  using assms by (simp add: syncTokenAccounts_def resolve_def)

lemma escrowBalance_of_absent_or_undecodable:
  assumes "dcEscrowAcc = None \<or>
           (\<exists>info e. dcEscrowAcc = Some info \<and> AccountLayout_decode env (info_data info) = Inl e)"
  shows "escrowBalance_of env dcEscrowAcc = 0"
  using assms by (auto simp: escrowBalance_of_def escrow_try_def)

text \<open>An escrow amount of more than 53 bits fails in \<^verbatim>\<open>toNumber\<close> and is recorded as 0 too.\<close>

lemma escrow_amount_over_53_bits:
  assumes "AccountLayout_decode env (info_data info) = Inr d" and "raw_amount d = Some a"
    and "2 ^ 53 \<le> unat a"
  shows "escrowBalance_of env (Some info) = 0"
proof -
  from assms(3) have "a \<noteq> 0" by auto
  with assms show ?thesis
    by (simp add: escrowBalance_of_def escrow_try_def BN_toNumber_def)
qed

lemma example_decode_atas:
  "decode_atas (example_env b) example_keyed_accounts = Inr (atas example_snapshot)"
  by (simp add: example_env_def example_keyed_accounts_def example_snapshot_def
        Number_amount_def nearest_double_exact)

lemma example_syncTokenAccounts:
  "syncTokenAccounts (example_env b) Devnet (Some example_account) =
     (Inr example_snapshot,
      [NetworkCall ''getTokenAccountsByOwner'', NetworkCall ''getAccountInfo'',
       NetworkCall ''getAccountInfo''])"
proof -
  have "syncTokenAccounts (example_env b) Devnet (Some example_account) =
          (Inr \<lparr> atas = atas example_snapshot,
                 sol = \<lparr> nb_tokenAccount = ''wallet'',
                         nb_balance = (case Some \<lparr> info_data = [0], lamports = 5 \<rparr> of
                                         None \<Rightarrow> 0 | Some i \<Rightarrow> lamports i) \<rparr>,
                 dcEscrow = \<lparr> nb_tokenAccount = ''escrow'',
                              nb_balance = escrowBalance_of (example_env b)
                                             (Some \<lparr> info_data = [], lamports = 0 \<rparr>) \<rparr> \<rparr>,
           [NetworkCall ''getTokenAccountsByOwner'', NetworkCall ''getAccountInfo'',
            NetworkCall ''getAccountInfo''])"
  proof (rule syncTokenAccounts_success)
    show "opt_solanaAddress (Some example_account) = Some ''wallet''"
      by (simp add: opt_solanaAddress_def example_account_def)
    show "''wallet'' \<noteq> []" by simp
    show "newPublicKey (example_env b) ''wallet'' = Inr ''wallet''"
      by (simp add: example_env_def)
    show "getTokenAccountsByOwner (example_env b) ''wallet'' = Inr example_keyed_accounts"
      by (simp add: example_env_def example_keyed_accounts_def)
    show "decode_atas (example_env b) example_keyed_accounts = Inr (atas example_snapshot)"
      by (rule example_decode_atas)
    show "getEscrowTokenAccount (example_env b) ''wallet'' = Inr ''escrow''"
      by (simp add: example_env_def)
    show "getAccountInfo (example_env b) ''escrow'' = Inr (Some \<lparr> info_data = [], lamports = 0 \<rparr>)"
      by (simp add: example_env_def)
    show "getAccountInfo (example_env b) ''wallet'' = Inr (Some \<lparr> info_data = [0], lamports = 5 \<rparr>)"
      by (simp add: example_env_def)
  qed
  moreover have "escrowBalance_of (example_env b) (Some \<lparr> info_data = [], lamports = 0 \<rparr>) = 0"
    by (simp add: escrowBalance_of_def escrow_try_def example_env_def)
  ultimately show ?thesis by (simp add: example_snapshot_def)
qed

text \<open>
  C4. \<^verbatim>\<open>syncTokenAccounts\<close> tolerates an escrow account that is absent or whose data does
  not decode: when the steps before the \<^verbatim>\<open>try\<close> block succeed, the thunk returns a
  snapshot, and the \<^verbatim>\<open>dcEscrow\<close> balance in it is zero.
\<close>

theorem escrow_decode_failure_tolerated:
  assumes "opt_solanaAddress acct = Some addr" and "addr \<noteq> []"
    and "newPublicKey env addr = Inr pubKey"
    and "getTokenAccountsByOwner env pubKey = Inr tokenAccounts"
    and "decode_atas env tokenAccounts = Inr decoded"
    and "getEscrowTokenAccount env addr = Inr escrowAccount"
    and "getAccountInfo env escrowAccount = Inr dcEscrowAcc"
    and "getAccountInfo env pubKey = Inr solAcc"
    and "dcEscrowAcc = None \<or>
         (\<exists>info e. dcEscrowAcc = Some info \<and> AccountLayout_decode env (info_data info) = Inl e)"
  shows "\<exists>tk tr. syncTokenAccounts env c acct = (Inr tk, tr) \<and>
                 dcEscrow tk = \<lparr> nb_tokenAccount = escrowAccount, nb_balance = 0 \<rparr>"
  using syncTokenAccounts_success [OF assms(1-8), of c]
    escrowBalance_of_absent_or_undecodable [OF assms(9)]
  by simp

theorem escrow_decode_failure_tolerated_witness:
  "AccountLayout_decode (example_env True) [] = Inl Failure \<and>
   (\<exists>tk tr. syncTokenAccounts (example_env True) Devnet (Some example_account) = (Inr tk, tr) \<and>
            dcEscrow tk = \<lparr> nb_tokenAccount = ''escrow'', nb_balance = 0 \<rparr>)"
proof
  show "AccountLayout_decode (example_env True) [] = Inl Failure"
    by (simp add: example_env_def)
  show "\<exists>tk tr. syncTokenAccounts (example_env True) Devnet (Some example_account) = (Inr tk, tr) \<and>
           dcEscrow tk = \<lparr> nb_tokenAccount = ''escrow'', nb_balance = 0 \<rparr>"
  proof (rule escrow_decode_failure_tolerated)
    show "opt_solanaAddress (Some example_account) = Some ''wallet''"
      by (simp add: opt_solanaAddress_def example_account_def)
    show "''wallet'' \<noteq> []" by simp
    show "newPublicKey (example_env True) ''wallet'' = Inr ''wallet''"
      by (simp add: example_env_def)
    show "getTokenAccountsByOwner (example_env True) ''wallet'' = Inr example_keyed_accounts"
      by (simp add: example_env_def example_keyed_accounts_def)
    show "decode_atas (example_env True) example_keyed_accounts = Inr (atas example_snapshot)"
      by (rule example_decode_atas)
    show "getEscrowTokenAccount (example_env True) ''wallet'' = Inr ''escrow''"
      by (simp add: example_env_def)
    show "getAccountInfo (example_env True) ''escrow''
            = Inr (Some \<lparr> info_data = [], lamports = 0 \<rparr>)"
      by (simp add: example_env_def)
    show "getAccountInfo (example_env True) ''wallet''
            = Inr (Some \<lparr> info_data = [0], lamports = 5 \<rparr>)"
      by (simp add: example_env_def)
    show "Some \<lparr> info_data = [], lamports = 0 \<rparr> = None \<or>
          (\<exists>info e. Some \<lparr> info_data = [], lamports = 0 \<rparr> = Some info \<and>
               AccountLayout_decode (example_env True) (info_data info) = Inl e)"
      by (simp add: example_env_def)
  qed
qed

text \<open>
  C10. In the snapshot \<^verbatim>\<open>syncTokenAccounts\<close> returns, the entry of each token account has
  that account's key and decoded mint, and its balance is \<^verbatim>\<open>Number\<close> of the decoded
  \<^verbatim>\<open>u64\<close> amount: for an amount of at most \<open>2 ^ 53\<close> exactly the amount, and 0 for a
  missing amount (as for the amount zero).
\<close>

theorem ata_balance_exact:
  assumes "syncTokenAccounts env c acct = (Inr tk, tr)"
    and "opt_solanaAddress acct = Some addr"
    and "newPublicKey env addr = Inr pubKey"
    and "getTokenAccountsByOwner env pubKey = Inr tokenAccounts"
    and "i < length tokenAccounts"
    and "AccountLayout_decode env (account_data (tokenAccounts ! i)) = Inr d"
  shows "length (atas tk) = length tokenAccounts \<and>
         tokenAccount (atas tk ! i) = pubkey (tokenAccounts ! i) \<and>
         mint (atas tk ! i) = raw_mint d \<and>
         (case raw_amount d of
            None \<Rightarrow> balance (atas tk ! i) = 0
          | Some a \<Rightarrow> unat a \<le> 2 ^ 53 \<longrightarrow> balance (atas tk ! i) = real (unat a))"
proof -
  from assms(1-4) have dec: "decode_atas env tokenAccounts = Inr (atas tk)"
    by (auto simp: syncTokenAccounts_def bind_def lift_def call_def throw_def resolve_def
          promise_all2_def split: if_splits sum.splits prod.splits option.splits)
  from decode_atas_nth [OF dec assms(5,6)] decode_atas_length [OF dec] show ?thesis
    by (auto simp: Number_amount_def nearest_double_exact split: option.splits)
qed

theorem ata_balance_exact_witness:
  "syncTokenAccounts (example_env True) Devnet (Some example_account) =
     (Inr example_snapshot,
      [NetworkCall ''getTokenAccountsByOwner'', NetworkCall ''getAccountInfo'',
       NetworkCall ''getAccountInfo'']) \<and>
   unat (7 :: 64 word) \<le> 2 ^ 53 \<and>
   balance (atas example_snapshot ! 0) = real (unat (7 :: 64 word))"
proof -
  have h2: "opt_solanaAddress (Some example_account) = Some ''wallet''"
    by (simp add: opt_solanaAddress_def example_account_def)
  have h3: "newPublicKey (example_env True) ''wallet'' = Inr ''wallet''"
    by (simp add: example_env_def)
  have h4: "getTokenAccountsByOwner (example_env True) ''wallet'' = Inr example_keyed_accounts"
    by (simp add: example_env_def example_keyed_accounts_def)
  have h5: "0 < length example_keyed_accounts"
    by (simp add: example_keyed_accounts_def)
  have h6: "AccountLayout_decode (example_env True) (account_data (example_keyed_accounts ! 0))
              = Inr \<lparr> raw_mint = ''hnt'', raw_amount = Some 7 \<rparr>"
    by (simp add: example_env_def example_keyed_accounts_def)
  from ata_balance_exact [OF example_syncTokenAccounts h2 h3 h4 h5 h6] example_syncTokenAccounts
  show ?thesis by simp
qed

end
